theory Spec2Isabelle
  imports Complex_Main "HOL-Library.Word"
begin

section \<open>The layering system of wx-caman (src/core/layer.js)\<close>

text \<open>
  The class \<open>Layer\<close> owns a pixel buffer, a blending mode and an opacity, and composites
  itself onto the buffer beneath it in the engine's stack. The embedding follows
  \<open>layer.js\<close> line by line. JavaScript numbers are taken as real numbers (section 4.3 of
  the specification: "channel values are treated as real numbers"); the two non-numbers
  the code can meet, \<open>undefined\<close> (a read beyond the end of a typed array, an alpha a
  blend function did not set) and \<open>NaN\<close> (arithmetic on \<open>undefined\<close>), are values of
  their own. Infinities and the rounding of IEEE doubles are outside the model.
\<close>

subsection \<open>JavaScript values\<close>

datatype jsval = Undefined | NaN | Num real

text \<open>The binary operators \<open>-\<close>, \<open>*\<close> and \<open>/\<close>: both operands go through \<open>ToNumber\<close>,
  which maps \<open>undefined\<close> to \<open>NaN\<close>, and \<open>NaN\<close> is absorbing. The code only ever divides
  by the literal 255; a division by zero, whose quotient is an infinity or \<open>NaN\<close>, is
  never reached and stands as \<open>NaN\<close>.\<close>

fun js_sub :: "jsval \<Rightarrow> jsval \<Rightarrow> jsval" where
  "js_sub (Num x) (Num y) = Num (x - y)"
| "js_sub _ _ = NaN"

fun js_mul :: "jsval \<Rightarrow> jsval \<Rightarrow> jsval" where
  "js_mul (Num x) (Num y) = Num (x * y)"
| "js_mul _ _ = NaN"

fun js_div :: "jsval \<Rightarrow> jsval \<Rightarrow> jsval" where
  "js_div (Num x) (Num y) = (if y = 0 then NaN else Num (x / y))"
| "js_div _ _ = NaN"

text \<open>The operator \<open>!\<close>: \<open>!v\<close> is true for \<open>undefined\<close>, \<open>NaN\<close> and the number zero.\<close>

fun js_not :: "jsval \<Rightarrow> bool" where
  "js_not Undefined = True"
| "js_not NaN = True"
| "js_not (Num x) = (x = 0)"

subsection \<open>Uint8ClampedArray\<close>

type_synonym byte = "8 word"

text \<open>\<open>ToUint8Clamp\<close> of ECMAScript: \<open>NaN\<close> becomes 0, the number is clamped to
  [0, 255] and rounded to the nearest integer, ties to the even one.\<close>

definition ToUint8Clamp :: "jsval \<Rightarrow> int" where
  "ToUint8Clamp v =
     (case v of
        Num x \<Rightarrow>
          (let clamped = min (max x 0) 255;
               f = \<lfloor>clamped\<rfloor>
           in if clamped < of_int f + 1 / 2 then f
              else if clamped > of_int f + 1 / 2 then f + 1
              else if even f then f else f + 1)
      | _ \<Rightarrow> 0)"

text \<open>Reading an element: \<open>undefined\<close> beyond the end. Writing an element: the value is
  converted by \<open>ToUint8Clamp\<close>; a write beyond the end is ignored, the length never changes.\<close>

definition typed_get :: "byte list \<Rightarrow> nat \<Rightarrow> jsval" where
  "typed_get d i = (if i < length d then Num (of_int (uint (d ! i))) else Undefined)"

definition typed_set :: "byte list \<Rightarrow> nat \<Rightarrow> jsval \<Rightarrow> byte list" where
  "typed_set d i v = (if i < length d then d[i := word_of_int (ToUint8Clamp v)] else d)"

subsection \<open>The store, the engine and the layer\<close>

text \<open>Buffers are shared objects: the engine's \<open>pixelData\<close>, the entries of its
  \<open>pixelStack\<close> and a layer's \<open>pixelData\<close> are references, and two of them may name the
  same buffer. The store maps a reference to the buffer's contents.\<close>

type_synonym ref = nat
type_synonym store = "ref \<Rightarrow> byte list"

text \<open>The owning engine \<open>c\<close>, as far as \<open>layer.js\<close> reads it.\<close>

record caman =
  pixelData :: ref
  pixelStack :: "ref list"

record options =
  blendingMode :: string
  opacity :: real

record layer =
  options :: options
  layerID :: nat
  width :: nat
  height :: nat
  pixelData :: ref

subsection \<open>Blender and Util\<close>

record rgba =
  r :: jsval
  g :: jsval
  b :: jsval
  a :: jsval

datatype error = ConfigurationError | TypeError

type_synonym blender = "rgba \<Rightarrow> rgba \<Rightarrow> rgba"
type_synonym registry = "string \<rightharpoonup> blender"

text \<open>Modelled from the spec: \<open>Blender.execute\<close> (\<open>blender.js\<close> is not part of the sources
  at hand). Section 2: the registry is a mapping from a name to a blend function; section
  4.3, steps 3 and 4: the function registered under the name is looked up and invoked with
  \<open>(layerRGBA, parentRGBA)\<close>, it is a pure mapping that may leave the alpha channel unset,
  and an unregistered name is a configuration error surfaced at this call.\<close>

definition Blender_execute :: "registry \<Rightarrow> string \<Rightarrow> rgba \<Rightarrow> rgba \<Rightarrow> error + rgba" where
  "Blender_execute reg name rgbaLayer rgbaParent =
     (case reg name of
        None \<Rightarrow> Inl ConfigurationError
      | Some f \<Rightarrow> Inr (f rgbaLayer rgbaParent))"

text \<open>Modelled from the spec: \<open>Util.clampRGB\<close> (\<open>util.js\<close> is not part of the sources at
  hand). Section 4.3, step 5: a channel is clamped to [0, 255]. A value that is not a
  number has no order and is handed back as it is.\<close>

fun clampRGB :: "jsval \<Rightarrow> jsval" where
  "clampRGB (Num x) = (if x < 0 then Num 0 else if x > 255 then Num 255 else Num x)"
| "clampRGB v = v"

subsection \<open>setBlendingMode and opacity\<close>

text \<open>Both setters assign one option and return \<open>this\<close>. The method \<open>opacity\<close> is
  \<open>opacity_set\<close> here, \<open>opacity\<close> being the name of the option it assigns.\<close>

definition setBlendingMode :: "string \<Rightarrow> layer \<Rightarrow> layer" where
  "setBlendingMode mode this = this\<lparr>options := (options this)\<lparr>blendingMode := mode\<rparr>\<rparr>"

definition opacity_set :: "real \<Rightarrow> layer \<Rightarrow> layer" where
  "opacity_set percent this = this\<lparr>options := (options this)\<lparr>opacity := percent / 100\<rparr>\<rparr>"

subsection \<open>copyParent\<close>

text \<open>The body of the loop of \<open>copyParent\<close>: four element assignments into
  \<open>this.pixelData\<close>, each reading \<open>parentData\<close> when it is reached.\<close>

definition copyParent_body :: "layer \<Rightarrow> ref \<Rightarrow> nat \<Rightarrow> store \<Rightarrow> store" where
  "copyParent_body this parentData i h =
     (let h1 = h(layer.pixelData this :=
                   typed_set (h (layer.pixelData this)) i (typed_get (h parentData) i));
          h2 = h1(layer.pixelData this :=
                   typed_set (h1 (layer.pixelData this)) (i + 1) (typed_get (h1 parentData) (i + 1)));
          h3 = h2(layer.pixelData this :=
                   typed_set (h2 (layer.pixelData this)) (i + 2) (typed_get (h2 parentData) (i + 2)));
          h4 = h3(layer.pixelData this :=
                   typed_set (h3 (layer.pixelData this)) (i + 3) (typed_get (h3 parentData) (i + 3)))
      in h4)"

text \<open>The loop runs while \<open>i < this.c.pixelData.length\<close>, in steps of 4.\<close>

function copyParent_loop :: "layer \<Rightarrow> caman \<Rightarrow> ref \<Rightarrow> nat \<Rightarrow> store \<Rightarrow> store" where
  "copyParent_loop this c parentData i h =
     (if i < length (h (caman.pixelData c))
      then copyParent_loop this c parentData (i + 4) (copyParent_body this parentData i h)
      else h)"
  by pat_completeness auto
termination
  by (relation "measure (\<lambda>(this, c, parentData, i, h). length (h (caman.pixelData c)) - i)")
     (auto simp: copyParent_body_def typed_set_def Let_def)

declare copyParent_loop.simps [simp del]

text \<open>\<open>parentData\<close> is bound to \<open>this.pixelData\<close>, the layer's own buffer; the method
  returns \<open>this\<close>.\<close>

definition copyParent :: "layer \<Rightarrow> caman \<Rightarrow> store \<Rightarrow> layer \<times> store" where
  "copyParent this c h =
     (let parentData = layer.pixelData this
      in (this, copyParent_loop this c parentData 0 h))"

subsection \<open>applyToParent\<close>

text \<open>One pass of the loop body at index \<open>i\<close>. \<open>parentData\<close> is \<open>None\<close> when the stack is
  empty (\<open>pixelStack[-1]\<close> is \<open>undefined\<close>), and reading an element of \<open>undefined\<close> throws
  a TypeError. Both throwing statements come before the first assignment, so a throwing
  pass leaves the store as it found it. The two pixels and the blend result are values
  here. In JavaScript a blend function may hand back one of its arguments, and lines 97
  to 102 then assign to that object too; they assign a clamped channel that was read from
  a buffer, hence the value it holds, or the field \<open>a\<close>, which lines 104 to 106 read from
  \<open>result\<close> only.\<close>

definition applyToParent_body ::
    "registry \<Rightarrow> layer \<Rightarrow> ref \<Rightarrow> ref option \<Rightarrow> nat \<Rightarrow> store \<Rightarrow> error + store" where
  "applyToParent_body reg this layerData parentData i h =
     (case parentData of
        None \<Rightarrow> Inl TypeError
      | Some pd \<Rightarrow>
          (let rgbaParent = \<lparr>r = typed_get (h pd) i, g = typed_get (h pd) (i + 1),
                             b = typed_get (h pd) (i + 2), a = typed_get (h pd) (i + 3)\<rparr>;
               rgbaLayer = \<lparr>r = typed_get (h layerData) i, g = typed_get (h layerData) (i + 1),
                            b = typed_get (h layerData) (i + 2), a = typed_get (h layerData) (i + 3)\<rparr>
           in case Blender_execute reg (blendingMode (options this)) rgbaLayer rgbaParent of
                Inl e \<Rightarrow> Inl e
              | Inr result0 \<Rightarrow>
                  (let result1 = result0\<lparr>r := clampRGB (r result0)\<rparr>;
                       result2 = result1\<lparr>g := clampRGB (g result1)\<rparr>;
                       result3 = result2\<lparr>b := clampRGB (b result2)\<rparr>;
                       result = (if js_not (a result3) then result3\<lparr>a := a rgbaLayer\<rparr>
                                 else result3);
                       h1 = h(pd := typed_set (h pd) i
                              (js_sub (r rgbaParent)
                                 (js_mul (js_sub (r rgbaParent) (r result))
                                    (js_mul (Num (opacity (options this)))
                                       (js_div (a result) (Num 255))))));
                       h2 = h1(pd := typed_set (h1 pd) (i + 1)
                              (js_sub (g rgbaParent)
                                 (js_mul (js_sub (g rgbaParent) (g result))
                                    (js_mul (Num (opacity (options this)))
                                       (js_div (a result) (Num 255))))));
                       h3 = h2(pd := typed_set (h2 pd) (i + 2)
                              (js_sub (b rgbaParent)
                                 (js_mul (js_sub (b rgbaParent) (b result))
                                    (js_mul (Num (opacity (options this)))
                                       (js_div (a result) (Num 255))))))
                   in Inr h3)))"

text \<open>The loop runs while \<open>i < layerData.length\<close>, in steps of 4. An exception ends it
  with the store as it is at that moment.\<close>

function applyToParent_loop ::
    "registry \<Rightarrow> layer \<Rightarrow> ref \<Rightarrow> ref option \<Rightarrow> nat \<Rightarrow> store \<Rightarrow> error option \<times> store" where
  "applyToParent_loop reg this layerData parentData i h =
     (if i < length (h layerData)
      then (case applyToParent_body reg this layerData parentData i h of
              Inl e \<Rightarrow> (Some e, h)
            | Inr h' \<Rightarrow> applyToParent_loop reg this layerData parentData (i + 4) h')
      else (None, h))"
  by pat_completeness auto
termination
  by (relation "measure (\<lambda>(reg, this, layerData, parentData, i, h). length (h layerData) - i)")
     (auto simp: applyToParent_body_def typed_set_def Let_def split: option.splits sum.splits)

declare applyToParent_loop.simps [simp del]

text \<open>\<open>parentData\<close> is the last entry of the engine's \<open>pixelStack\<close>, \<open>layerData\<close> is the
  engine's \<open>pixelData\<close>. The result is the exception thrown, if any, and the store.\<close>

definition applyToParent :: "registry \<Rightarrow> layer \<Rightarrow> caman \<Rightarrow> store \<Rightarrow> error option \<times> store" where
  "applyToParent reg this c h =
     (let parentData = (if pixelStack c = [] then None else Some (last (pixelStack c)));
          layerData = caman.pixelData c
      in applyToParent_loop reg this layerData parentData 0 h)"

subsection \<open>The quantities of the per-pixel procedure\<close>

text \<open>Names for what one pass of \<open>applyToParent\<close> computes, after section 4.3 of the
  specification: the pixel read at index \<open>i\<close> (steps 1 and 2), the blend result after the
  clamp and the alpha default of lines 97 to 102 (steps 5 and 6), the compositing weight
  (step 7), the interpolated channel (step 8) and the three stores of lines 104 to 106
  (step 9).\<close>

definition pixelAt :: "byte list \<Rightarrow> nat \<Rightarrow> rgba" where
  "pixelAt d i = \<lparr>r = typed_get d i, g = typed_get d (i + 1),
                  b = typed_get d (i + 2), a = typed_get d (i + 3)\<rparr>"

definition blendResult :: "blender \<Rightarrow> rgba \<Rightarrow> rgba \<Rightarrow> rgba" where
  "blendResult f layerRGBA parentRGBA =
     (let res = f layerRGBA parentRGBA
      in \<lparr>r = clampRGB (r res), g = clampRGB (g res), b = clampRGB (b res),
          a = (if js_not (a res) then a layerRGBA else a res)\<rparr>)"

definition weight :: "layer \<Rightarrow> jsval \<Rightarrow> jsval" where
  "weight this alpha = js_mul (Num (opacity (options this))) (js_div alpha (Num 255))"

definition interpolate :: "jsval \<Rightarrow> jsval \<Rightarrow> jsval \<Rightarrow> jsval" where
  "interpolate parentChannel resultChannel w =
     js_sub parentChannel (js_mul (js_sub parentChannel resultChannel) w)"

definition channelValue :: "layer \<Rightarrow> blender \<Rightarrow> (rgba \<Rightarrow> jsval) \<Rightarrow> rgba \<Rightarrow> rgba \<Rightarrow> jsval" where
  "channelValue this f ch layerRGBA parentRGBA =
     (let result = blendResult f layerRGBA parentRGBA
      in interpolate (ch parentRGBA) (ch result) (weight this (a result)))"

definition compositePixel :: "layer \<Rightarrow> blender \<Rightarrow> byte list \<Rightarrow> byte list \<Rightarrow> nat \<Rightarrow> byte list" where
  "compositePixel this f layerBuf parentBuf i =
     (let layerRGBA = pixelAt layerBuf i; parentRGBA = pixelAt parentBuf i
      in typed_set
           (typed_set
              (typed_set parentBuf i (channelValue this f r layerRGBA parentRGBA))
              (i + 1) (channelValue this f g layerRGBA parentRGBA))
           (i + 2) (channelValue this f b layerRGBA parentRGBA))"

text \<open>A value that is a number, and a pixel whose four channels are numbers: what a read
  inside a buffer yields.\<close>

fun isNum :: "jsval \<Rightarrow> bool" where
  "isNum (Num x) = True"
| "isNum v = False"

definition numeric :: "rgba \<Rightarrow> bool" where
  "numeric p = (isNum (r p) \<and> isNum (g p) \<and> isNum (b p) \<and> isNum (a p))"

text \<open>The same quantities in the words of the specification, to compare with
  \<open>blendResult\<close> and \<open>channelValue\<close>, which follow the code. Section 4.3, steps 4 to 6:
  the result is the output of the blend function with R, G and B clamped, and its alpha
  is the layer's alpha if the blend function did not produce an alpha value, that is
  left it \<open>undefined\<close>. Steps 7 and 8: \<open>w = options.opacity * (result.a / 255)\<close> and the
  channel is \<open>parentChannel - (parentChannel - resultChannel) * w\<close>.\<close>

definition spec_result :: "blender \<Rightarrow> rgba \<Rightarrow> rgba \<Rightarrow> rgba" where
  "spec_result f layerRGBA parentRGBA =
     (let res = f layerRGBA parentRGBA
      in \<lparr>r = clampRGB (r res), g = clampRGB (g res), b = clampRGB (b res),
          a = (if a res = Undefined then a layerRGBA else a res)\<rparr>)"

definition spec_channel :: "layer \<Rightarrow> blender \<Rightarrow> (rgba \<Rightarrow> jsval) \<Rightarrow> rgba \<Rightarrow> rgba \<Rightarrow> jsval" where
  "spec_channel this f ch layerRGBA parentRGBA =
     (let result = spec_result f layerRGBA parentRGBA;
          w = js_mul (Num (opacity (options this))) (js_div (a result) (Num 255))
      in js_sub (ch parentRGBA) (js_mul (js_sub (ch parentRGBA) (ch result)) w))"

subsection \<open>Concrete states\<close>

text \<open>Modelled from the spec: the blend mode of the scenario of section 8, "mode
  \<open>normal\<close> defined as \<open>result = layerRGBA\<close>" (the library of blend modes is not part of
  the sources at hand).\<close>

definition normal :: blender where
  "normal rgbaLayer rgbaParent = rgbaLayer"

text \<open>Two more blend functions a caller may register: one that sets the alpha of its
  result to 0, one whose channels leave [0, 255] and whose alpha is unset.\<close>

definition transparent :: blender where
  "transparent rgbaLayer rgbaParent = rgbaLayer\<lparr>a := Num 0\<rparr>"

definition overflow :: blender where
  "overflow rgbaLayer rgbaParent = \<lparr>r = Num 300, g = Num (- 20), b = Num 1000, a = Undefined\<rparr>"

definition scenario_registry :: registry where
  "scenario_registry =
     [''normal'' \<mapsto> normal, ''transparent'' \<mapsto> transparent, ''overflow'' \<mapsto> overflow]"

text \<open>A one-pixel image. Buffer 0 is the parent \<open>(100, 100, 100, 255)\<close>, at the top of
  the stack; buffer 1 is the buffer the engine exposes as \<open>pixelData\<close>,
  \<open>(200, 50, 0, 255)\<close>; buffer 2 is a zero-filled buffer, as the constructor of \<open>Layer\<close>
  allocates it.\<close>

definition scenario_store :: store where
  "scenario_store = (\<lambda>_. [])(0 := [100, 100, 100, 255], 1 := [200, 50, 0, 255],
     2 := [0, 0, 0, 0])"

definition scenario_engine :: caman where
  "scenario_engine = \<lparr>caman.pixelData = 1, pixelStack = [0]\<rparr>"

text \<open>The layer as the constructor leaves it (mode \<open>normal\<close>, opacity 1.0): once as the
  active layer, whose buffer the engine exposes as \<open>pixelData\<close>, and once with the
  zero-filled buffer.\<close>

definition active_layer :: layer where
  "active_layer = \<lparr>options = \<lparr>blendingMode = ''normal'', opacity = 1\<rparr>,
     layerID = 0, width = 1, height = 1, layer.pixelData = 1\<rparr>"

definition fresh_layer :: layer where
  "fresh_layer = \<lparr>options = \<lparr>blendingMode = ''normal'', opacity = 1\<rparr>,
     layerID = 0, width = 1, height = 1, layer.pixelData = 2\<rparr>"

text \<open>The layer of the scenario of section 8: mode \<open>normal\<close>, opacity 0.5.\<close>

definition scenario_layer :: layer where
  "scenario_layer = opacity_set 50 active_layer"

text \<open>The layer of the scenario with the mode \<open>transparent\<close> in place of \<open>normal\<close>.\<close>

definition transparent_layer :: layer where
  "transparent_layer = setBlendingMode ''transparent'' scenario_layer"

text \<open>A layer with the mode \<open>overflow\<close> and an opacity of 200 percent.\<close>

definition overflow_layer :: layer where
  "overflow_layer = opacity_set 200 (setBlendingMode ''overflow'' active_layer)"

text \<open>An image without pixels: every buffer is empty.\<close>

definition empty_store :: store where
  "empty_store = (\<lambda>_. [])"

section \<open>Properties\<close>

subsection \<open>Typed arrays\<close>

lemma length_typed_set [simp]: "length (typed_set d i v) = length d"
  by (simp add: typed_set_def)

lemma ToUint8Clamp_range: "0 \<le> ToUint8Clamp v \<and> ToUint8Clamp v \<le> 255"
proof (cases v)
  case (Num x)
  define cl where "cl = min (max x 0) 255"
  define f where "f = \<lfloor>cl\<rfloor>"
  have lo: "0 \<le> cl" and hi: "cl \<le> 255" by (simp_all add: cl_def)
  have f0: "0 \<le> f" using lo by (simp add: f_def)
  have f1: "f \<le> 255" using hi by (simp add: f_def floor_le_iff)
  have up: "f + 1 \<le> 255" if "of_int f + 1 / 2 \<le> cl"
  proof -
    have "of_int f < (255::real)" using that hi by linarith
    then have "f < 255" by linarith
    then show ?thesis by simp
  qed
  have eq: "ToUint8Clamp v = (if cl < of_int f + 1 / 2 then f
              else if cl > of_int f + 1 / 2 then f + 1
              else if even f then f else f + 1)"
    by (simp add: ToUint8Clamp_def Num Let_def cl_def f_def)
  show ?thesis
    unfolding eq using f0 f1 up by (auto split: if_splits)
qed (simp_all add: ToUint8Clamp_def)

lemma uint_stored [simp]: "uint (word_of_int (ToUint8Clamp v) :: byte) = ToUint8Clamp v"
proof -
  have "take_bit 8 (ToUint8Clamp v) = ToUint8Clamp v"
    using ToUint8Clamp_range [of v] by (simp add: take_bit_int_eq_self)
  then show ?thesis by (simp add: uint_word_of_int_eq)
qed

lemma ToUint8Clamp_byte: "ToUint8Clamp (Num (of_int (uint (x :: byte)))) = uint x"
proof -
  have "uint x < 2 ^ 8" using uint_bounded [of x] by simp
  then have "uint x \<le> 255" by simp
  then have hi: "real_of_int (uint x) \<le> 255" by linarith
  have lo: "0 \<le> real_of_int (uint x)" by (simp del: of_int_uint)
  have cl: "min (max (real_of_int (uint x)) 0) 255 = real_of_int (uint x)"
    using lo hi by (simp add: min_def max_def)
  show ?thesis
    unfolding ToUint8Clamp_def jsval.case cl Let_def by (simp del: of_int_uint)
qed

lemma typed_set_get [simp]: "typed_set d i (typed_get d i) = d"
  by (simp add: typed_set_def typed_get_def ToUint8Clamp_byte word_of_int_uint del: of_int_uint)

subsection \<open>One pass of the loop of applyToParent\<close>

lemma length_compositePixel [simp]:
  "length (compositePixel this f layerBuf parentBuf i) = length parentBuf"
  by (simp add: compositePixel_def Let_def)

lemma nth_typed_set:
  "typed_set d i v ! j = (if j = i \<and> i < length d then word_of_int (ToUint8Clamp v) else d ! j)"
  by (simp add: typed_set_def)

lemma nth_compositePixel_other:
  "j \<noteq> i \<Longrightarrow> j \<noteq> i + 1 \<Longrightarrow> j \<noteq> i + 2 \<Longrightarrow>
   compositePixel this f layerBuf parentBuf i ! j = parentBuf ! j"
  by (simp add: compositePixel_def Let_def nth_typed_set)

lemma nth_compositePixel_r:
  "i < length parentBuf \<Longrightarrow>
   compositePixel this f layerBuf parentBuf i ! i =
     word_of_int (ToUint8Clamp (channelValue this f r (pixelAt layerBuf i) (pixelAt parentBuf i)))"
  by (simp add: compositePixel_def Let_def nth_typed_set)

lemma nth_compositePixel_g:
  "i + 1 < length parentBuf \<Longrightarrow>
   compositePixel this f layerBuf parentBuf i ! (i + 1) =
     word_of_int (ToUint8Clamp (channelValue this f g (pixelAt layerBuf i) (pixelAt parentBuf i)))"
  by (simp add: compositePixel_def Let_def nth_typed_set)

lemma nth_compositePixel_b:
  "i + 2 < length parentBuf \<Longrightarrow>
   compositePixel this f layerBuf parentBuf i ! (i + 2) =
     word_of_int (ToUint8Clamp (channelValue this f b (pixelAt layerBuf i) (pixelAt parentBuf i)))"
  by (simp add: compositePixel_def Let_def nth_typed_set)

lemma typed_get_compositePixel_other:
  "j \<noteq> i \<Longrightarrow> j \<noteq> i + 1 \<Longrightarrow> j \<noteq> i + 2 \<Longrightarrow>
   typed_get (compositePixel this f layerBuf parentBuf i) j = typed_get parentBuf j"
  by (simp add: typed_get_def nth_compositePixel_other del: of_int_uint)

lemma pixelAt_compositePixel_later:
  "i + 4 \<le> k \<Longrightarrow> pixelAt (compositePixel this f layerBuf parentBuf i) k = pixelAt parentBuf k"
  by (simp add: pixelAt_def typed_get_compositePixel_other)

lemma applyToParent_body_Some:
  "reg (blendingMode (options this)) = Some f \<Longrightarrow>
   applyToParent_body reg this layerData (Some pd) i h =
     Inr (h(pd := compositePixel this f (h layerData) (h pd) i))"
  by (simp add: applyToParent_body_def Blender_execute_def compositePixel_def channelValue_def
        blendResult_def weight_def interpolate_def pixelAt_def Let_def)

lemma applyToParent_body_None:
  "reg (blendingMode (options this)) = None \<Longrightarrow>
   applyToParent_body reg this layerData (Some pd) i h = Inl ConfigurationError"
  by (simp add: applyToParent_body_def Blender_execute_def)

lemma applyToParent_body_undefined:
  "applyToParent_body reg this layerData None i h = Inl TypeError"
  by (simp add: applyToParent_body_def)

lemma applyToParent_body_Inr:
  assumes "applyToParent_body reg this layerData parentData i h = Inr h'"
  obtains f pd where "reg (blendingMode (options this)) = Some f" "parentData = Some pd"
    "h' = h(pd := compositePixel this f (h layerData) (h pd) i)"
proof (cases parentData)
  case None
  with assms show ?thesis by (simp add: applyToParent_body_undefined)
next
  case (Some pd)
  show ?thesis
  proof (cases "reg (blendingMode (options this))")
    case None
    with assms Some show ?thesis by (simp add: applyToParent_body_None)
  next
    case (Some f)
    with assms \<open>parentData = Some pd\<close> that show ?thesis
      by (simp add: applyToParent_body_Some)
  qed
qed

subsection \<open>The loop of applyToParent\<close>

lemma applyToParent_loop_length:
  "length (snd (applyToParent_loop reg this layerData parentData i h) x) = length (h x)"
proof (induction reg this layerData parentData i h rule: applyToParent_loop.induct)
  case (1 reg this layerData parentData i h)
  show ?case
  proof (cases "i < length (h layerData)")
    case False
    then show ?thesis by (simp add: applyToParent_loop.simps [of _ _ _ _ i h])
  next
    case True
    show ?thesis
    proof (cases "applyToParent_body reg this layerData parentData i h")
      case (Inl e)
      with True show ?thesis by (simp add: applyToParent_loop.simps [of _ _ _ _ i h])
    next
      case (Inr h')
      from Inr obtain f pd where h': "h' = h(pd := compositePixel this f (h layerData) (h pd) i)"
        by (rule applyToParent_body_Inr)
      have "length (h' x) = length (h x)" by (simp add: h')
      with "1.IH" [OF True Inr] True Inr show ?thesis
        by (simp add: applyToParent_loop.simps [of _ _ _ _ i h])
    qed
  qed
qed

lemma applyToParent_loop_failed:
  "fst (applyToParent_loop reg this layerData parentData i h) = Some e \<Longrightarrow>
   snd (applyToParent_loop reg this layerData parentData i h) = h \<and>
   (parentData = None \<and> e = TypeError \<or>
    parentData \<noteq> None \<and> reg (blendingMode (options this)) = None \<and> e = ConfigurationError)"
proof (induction reg this layerData parentData i h rule: applyToParent_loop.induct)
  case (1 reg this layerData parentData i h)
  show ?case
  proof (cases "i < length (h layerData)")
    case False
    with "1.prems" show ?thesis by (simp add: applyToParent_loop.simps [of _ _ _ _ i h])
  next
    case True
    show ?thesis
    proof (cases "applyToParent_body reg this layerData parentData i h")
      case (Inl e')
      then show ?thesis
        using True "1.prems"
        by (cases parentData; cases "reg (blendingMode (options this))")
           (simp_all add: applyToParent_loop.simps [of _ _ _ _ i h] applyToParent_body_undefined
              applyToParent_body_None applyToParent_body_Some)
    next
      case (Inr h')
      from Inr obtain f pd where f: "reg (blendingMode (options this)) = Some f"
        and pd: "parentData = Some pd"
        by (rule applyToParent_body_Inr)
      from "1.prems" True Inr
      have "fst (applyToParent_loop reg this layerData parentData (i + 4) h') = Some e"
        by (simp add: applyToParent_loop.simps [of _ _ _ _ i h])
      from "1.IH" [OF True Inr this] f pd show ?thesis by simp
    qed
  qed
qed

lemma applyToParent_loop_other:
  "parentData \<noteq> Some x \<Longrightarrow>
   snd (applyToParent_loop reg this layerData parentData i h) x = h x"
proof (induction reg this layerData parentData i h rule: applyToParent_loop.induct)
  case (1 reg this layerData parentData i h)
  show ?case
  proof (cases "i < length (h layerData)")
    case False
    then show ?thesis by (simp add: applyToParent_loop.simps [of _ _ _ _ i h])
  next
    case True
    show ?thesis
    proof (cases "applyToParent_body reg this layerData parentData i h")
      case (Inl e)
      with True show ?thesis by (simp add: applyToParent_loop.simps [of _ _ _ _ i h])
    next
      case (Inr h')
      from Inr obtain f pd where pd: "parentData = Some pd"
        and h': "h' = h(pd := compositePixel this f (h layerData) (h pd) i)"
        by (rule applyToParent_body_Inr)
      have "h' x = h x" using "1.prems" pd by (auto simp: h')
      with "1.IH" [OF True Inr "1.prems"] True Inr show ?thesis
        by (simp add: applyToParent_loop.simps [of _ _ _ _ i h])
    qed
  qed
qed

lemma applyToParent_loop_before:
  "j < i \<Longrightarrow> snd (applyToParent_loop reg this layerData parentData i h) x ! j = h x ! j"
proof (induction reg this layerData parentData i h rule: applyToParent_loop.induct)
  case (1 reg this layerData parentData i h)
  show ?case
  proof (cases "i < length (h layerData)")
    case False
    then show ?thesis by (simp add: applyToParent_loop.simps [of _ _ _ _ i h])
  next
    case True
    show ?thesis
    proof (cases "applyToParent_body reg this layerData parentData i h")
      case (Inl e)
      with True show ?thesis by (simp add: applyToParent_loop.simps [of _ _ _ _ i h])
    next
      case (Inr h')
      from Inr obtain f pd where pd: "parentData = Some pd"
        and h': "h' = h(pd := compositePixel this f (h layerData) (h pd) i)"
        by (rule applyToParent_body_Inr)
      have "h' x ! j = h x ! j" using "1.prems" by (simp add: h' nth_compositePixel_other)
      moreover have "j < i + 4" using "1.prems" by simp
      ultimately show ?thesis
        using "1.IH" [OF True Inr] True Inr
        by (simp add: applyToParent_loop.simps [of _ _ _ _ i h])
    qed
  qed
qed

lemma applyToParent_loop_alpha:
  "4 dvd i \<Longrightarrow> j mod 4 = 3 \<Longrightarrow>
   snd (applyToParent_loop reg this layerData parentData i h) x ! j = h x ! j"
proof (induction reg this layerData parentData i h rule: applyToParent_loop.induct)
  case (1 reg this layerData parentData i h)
  show ?case
  proof (cases "i < length (h layerData)")
    case False
    then show ?thesis by (simp add: applyToParent_loop.simps [of _ _ _ _ i h])
  next
    case True
    show ?thesis
    proof (cases "applyToParent_body reg this layerData parentData i h")
      case (Inl e)
      with True show ?thesis by (simp add: applyToParent_loop.simps [of _ _ _ _ i h])
    next
      case (Inr h')
      from Inr obtain f pd where pd: "parentData = Some pd"
        and h': "h' = h(pd := compositePixel this f (h layerData) (h pd) i)"
        by (rule applyToParent_body_Inr)
      have ne: "j \<noteq> i" "j \<noteq> i + 1" "j \<noteq> i + 2"
        using "1.prems" by presburger+
      have "h' x ! j = h x ! j" using ne by (simp add: h' nth_compositePixel_other)
      moreover have "4 dvd i + 4" using "1.prems" by simp
      ultimately show ?thesis
        using "1.IH" [OF True Inr _ "1.prems"(2)] True Inr
        by (simp add: applyToParent_loop.simps [of _ _ _ _ i h])
    qed
  qed
qed

lemma nth_compositePixel_cong:
  "pixelAt layerBuf k = pixelAt layerBuf' k \<Longrightarrow> pixelAt parentBuf k = pixelAt parentBuf' k \<Longrightarrow>
   length parentBuf = length parentBuf' \<Longrightarrow> parentBuf ! j = parentBuf' ! j \<Longrightarrow>
   compositePixel this f layerBuf parentBuf k ! j = compositePixel this f layerBuf' parentBuf' k ! j"
  by (simp add: compositePixel_def Let_def nth_typed_set)

lemma applyToParent_loop_pixel:
  "parentData = Some pd \<Longrightarrow> reg (blendingMode (options this)) = Some f \<Longrightarrow>
   4 dvd i \<Longrightarrow> 4 dvd k \<Longrightarrow> i \<le> k \<Longrightarrow> k < length (h layerData) \<Longrightarrow> k \<le> j \<Longrightarrow> j < k + 4 \<Longrightarrow>
   snd (applyToParent_loop reg this layerData parentData i h) pd ! j =
     compositePixel this f (h layerData) (h pd) k ! j"
proof (induction reg this layerData parentData i h rule: applyToParent_loop.induct)
  case (1 reg this layerData parentData i h)
  note pd = \<open>parentData = Some pd\<close> and f = \<open>reg (blendingMode (options this)) = Some f\<close>
  have True: "i < length (h layerData)" using "1.prems" by simp
  define h' where "h' = h(pd := compositePixel this f (h layerData) (h pd) i)"
  have Inr: "applyToParent_body reg this layerData parentData i h = Inr h'"
    using f by (simp add: pd applyToParent_body_Some h'_def)
  have unfold: "applyToParent_loop reg this layerData parentData i h =
      applyToParent_loop reg this layerData parentData (i + 4) h'"
    using True Inr by (simp add: applyToParent_loop.simps [of _ _ _ _ i h])
  show ?case
  proof (cases "k = i")
    case True
    have "j < i + 4" using "1.prems" True by simp
    then have "snd (applyToParent_loop reg this layerData parentData (i + 4) h') pd ! j = h' pd ! j"
      by (rule applyToParent_loop_before)
    then show ?thesis by (simp add: unfold h'_def True)
  next
    case False
    have "4 dvd k - i" using "1.prems" by (simp add: dvd_diff_nat)
    then have ik: "i + 4 \<le> k" using False "1.prems" by (auto elim!: dvdE)
    have la: "pixelAt (h' layerData) k = pixelAt (h layerData) k"
      using ik by (simp add: h'_def pixelAt_compositePixel_later)
    have pa: "pixelAt (h' pd) k = pixelAt (h pd) k"
      using ik by (simp add: h'_def pixelAt_compositePixel_later)
    have len: "length (h' x) = length (h x)" for x by (simp add: h'_def)
    have nth: "h' pd ! j = h pd ! j"
      using ik "1.prems" by (simp add: h'_def nth_compositePixel_other)
    have "snd (applyToParent_loop reg this layerData parentData (i + 4) h') pd ! j =
        compositePixel this f (h' layerData) (h' pd) k ! j"
      using "1.prems" ik len by (intro "1.IH" [OF True Inr]) simp_all
    also have "\<dots> = compositePixel this f (h layerData) (h pd) k ! j"
      by (rule nth_compositePixel_cong) (simp_all add: la pa len nth)
    finally show ?thesis by (simp add: unfold)
  qed
qed

lemma applyToParent_loop_ok:
  "parentData = Some pd \<Longrightarrow> reg (blendingMode (options this)) = Some f \<Longrightarrow>
   fst (applyToParent_loop reg this layerData parentData i h) = None"
proof (cases "fst (applyToParent_loop reg this layerData parentData i h)")
  case (Some e)
  assume "parentData = Some pd" "reg (blendingMode (options this)) = Some f"
  with applyToParent_loop_failed [OF Some] show ?thesis by simp
qed simp

subsection \<open>applyToParent as a whole\<close>

lemma typed_get_typed_set:
  "typed_get (typed_set d i v) j =
     (if j = i \<and> i < length d then Num (of_int (ToUint8Clamp v)) else typed_get d j)"
  by (simp add: typed_get_def typed_set_def del: of_int_uint)

lemma typed_get_cong: "length d = length d' \<Longrightarrow> d ! j = d' ! j \<Longrightarrow> typed_get d j = typed_get d' j"
  by (simp add: typed_get_def)

lemma applyToParent_length:
  "length (snd (applyToParent reg this c h) x) = length (h x)"
  by (simp add: applyToParent_def applyToParent_loop_length)

lemma applyToParent_pixel:
  assumes "reg (blendingMode (options this)) = Some f" "pixelStack c \<noteq> []"
    "4 dvd i" "i < length (h (caman.pixelData c))" "i \<le> j" "j < i + 4"
  shows "typed_get (snd (applyToParent reg this c h) (last (pixelStack c))) j =
     typed_get (compositePixel this f (h (caman.pixelData c)) (h (last (pixelStack c))) i) j"
proof (rule typed_get_cong)
  show "length (snd (applyToParent reg this c h) (last (pixelStack c))) =
      length (compositePixel this f (h (caman.pixelData c)) (h (last (pixelStack c))) i)"
    by (simp add: applyToParent_length)
  show "snd (applyToParent reg this c h) (last (pixelStack c)) ! j =
      compositePixel this f (h (caman.pixelData c)) (h (last (pixelStack c))) i ! j"
    using assms by (simp add: applyToParent_def applyToParent_loop_pixel)
qed

lemma applyToParent_pixelAt:
  assumes "reg (blendingMode (options this)) = Some f" "pixelStack c \<noteq> []"
    "4 dvd i" "i < length (h (caman.pixelData c))"
  shows "pixelAt (snd (applyToParent reg this c h) (last (pixelStack c))) i =
     pixelAt (compositePixel this f (h (caman.pixelData c)) (h (last (pixelStack c))) i) i"
  unfolding pixelAt_def using assms by (simp add: applyToParent_pixel)

lemma applyToParent_nth:
  assumes "reg (blendingMode (options this)) = Some f" "pixelStack c \<noteq> []"
    "4 dvd i" "i < length (h (caman.pixelData c))" "i \<le> j" "j < i + 4"
  shows "snd (applyToParent reg this c h) (last (pixelStack c)) ! j =
     compositePixel this f (h (caman.pixelData c)) (h (last (pixelStack c))) i ! j"
  using assms by (simp add: applyToParent_def applyToParent_loop_pixel)

text \<open>The channel the code computes is the channel of the specification wherever the
  blend function left the alpha unset or produced an alpha that is a number other than 0.\<close>

lemma channelValue_spec_channel:
  "a (f layerRGBA parentRGBA) = Undefined \<or> \<not> js_not (a (f layerRGBA parentRGBA)) \<Longrightarrow>
   channelValue this f ch layerRGBA parentRGBA = spec_channel this f ch layerRGBA parentRGBA"
  by (auto simp: channelValue_def spec_channel_def blendResult_def spec_result_def
        weight_def interpolate_def Let_def)

text \<open>The scenario of section 8 of the specification: parent \<open>(100, 100, 100, 255)\<close>,
  layer \<open>(200, 50, 0, 255)\<close>, mode \<open>normal\<close>, opacity 0.5.\<close>

lemma applyToParent_scenario:
  "snd (applyToParent scenario_registry scenario_layer scenario_engine scenario_store) 0 =
     [150, 75, 50, 255]"
  by (simp add: applyToParent_def applyToParent_loop.simps applyToParent_body_def
        Blender_execute_def scenario_registry_def scenario_store_def scenario_engine_def
        scenario_layer_def active_layer_def opacity_set_def normal_def typed_get_def
        typed_set_def Let_def ToUint8Clamp_def)

subsection \<open>The loop of copyParent\<close>

lemma copyParent_body_self: "copyParent_body this (layer.pixelData this) i h = h"
  by (simp add: copyParent_body_def Let_def)

lemma copyParent_loop_self: "copyParent_loop this c (layer.pixelData this) i h = h"
proof (induction this c "layer.pixelData this" i h rule: copyParent_loop.induct)
  case (1 this c i h)
  then show ?case
    by (simp add: copyParent_loop.simps [of this c _ i h] copyParent_body_self)
qed

subsection \<open>Opacity zero\<close>

lemma pixelAt_numeric: "i + 3 < length d \<Longrightarrow> numeric (pixelAt d i)"
  by (simp add: numeric_def pixelAt_def typed_get_def del: of_int_uint)

lemma isNum_clampRGB: "isNum v \<Longrightarrow> isNum (clampRGB v)"
  by (cases v) simp_all

lemma isNum_not_js_not: "\<not> js_not v \<Longrightarrow> isNum v"
  by (cases v) simp_all

lemma channelValue_zero_opacity:
  assumes op: "opacity (options this) = 0"
    and L: "numeric L" and P: "numeric P" and ch: "isNum (ch P)"
    and res: "isNum (ch (blendResult f L P))"
  shows "channelValue this f ch L P = ch P"
proof -
  have "isNum (a (blendResult f L P))"
    using L by (auto simp: blendResult_def Let_def numeric_def isNum_not_js_not)
  then obtain al where al: "a (blendResult f L P) = Num al" by (cases "a (blendResult f L P)") simp_all
  from ch obtain p where p: "ch P = Num p" by (cases "ch P") simp_all
  from res obtain x where x: "ch (blendResult f L P) = Num x"
    by (cases "ch (blendResult f L P)") simp_all
  show ?thesis
    by (simp add: channelValue_def Let_def weight_def interpolate_def op al p x)
qed

lemma blendResult_rgb:
  "isNum (r (f L P)) \<and> isNum (g (f L P)) \<and> isNum (b (f L P)) \<Longrightarrow>
   isNum (r (blendResult f L P)) \<and> isNum (g (blendResult f L P)) \<and> isNum (b (blendResult f L P))"
  by (simp add: blendResult_def Let_def isNum_clampRGB)

lemma compositePixel_zero_opacity:
  assumes op: "opacity (options this) = 0"
    and i: "4 dvd i" "i < length layerBuf"
    and len: "4 dvd length layerBuf" "4 dvd length parentBuf"
    and f: "\<forall>L P. numeric L \<and> numeric P \<longrightarrow>
      isNum (r (f L P)) \<and> isNum (g (f L P)) \<and> isNum (b (f L P))"
  shows "compositePixel this f layerBuf parentBuf i = parentBuf"
proof (cases "i < length parentBuf")
  case False
  then show ?thesis by (simp add: compositePixel_def Let_def typed_set_def)
next
  case True
  have in_range: "i + 3 < n" if "4 dvd n" "i < n" for n
    using that i(1) by (auto elim!: dvdE)
  let ?L = "pixelAt layerBuf i" and ?P = "pixelAt parentBuf i"
  have L: "numeric ?L" using in_range [OF len(1) i(2)] by (rule pixelAt_numeric)
  have P: "numeric ?P" using in_range [OF len(2) True] by (rule pixelAt_numeric)
  from f L P have "isNum (r (f ?L ?P)) \<and> isNum (g (f ?L ?P)) \<and> isNum (b (f ?L ?P))" by blast
  then have res: "isNum (r (blendResult f ?L ?P))" "isNum (g (blendResult f ?L ?P))"
      "isNum (b (blendResult f ?L ?P))"
    using blendResult_rgb [of f ?L ?P] by simp_all
  have chP: "isNum (r ?P)" "isNum (g ?P)" "isNum (b ?P)" using P by (simp_all add: numeric_def)
  have vr: "channelValue this f r ?L ?P = typed_get parentBuf i"
    using channelValue_zero_opacity [OF op L P chP(1) res(1)] by (simp add: pixelAt_def)
  have vg: "channelValue this f g ?L ?P = typed_get parentBuf (i + 1)"
    using channelValue_zero_opacity [OF op L P chP(2) res(2)] by (simp add: pixelAt_def)
  have vb: "channelValue this f b ?L ?P = typed_get parentBuf (i + 2)"
    using channelValue_zero_opacity [OF op L P chP(3) res(3)] by (simp add: pixelAt_def)
  show ?thesis
    unfolding compositePixel_def Let_def vr vg vb by (simp only: typed_set_get)
qed

lemma applyToParent_loop_zero_opacity:
  assumes op: "opacity (options this) = 0"
    and f: "\<forall>f L P. reg (blendingMode (options this)) = Some f \<and> numeric L \<and> numeric P \<longrightarrow>
      isNum (r (f L P)) \<and> isNum (g (f L P)) \<and> isNum (b (f L P))"
  shows "4 dvd i \<Longrightarrow> 4 dvd length (h layerData) \<Longrightarrow>
    (\<forall>pd. parentData = Some pd \<longrightarrow> 4 dvd length (h pd)) \<Longrightarrow>
    snd (applyToParent_loop reg this layerData parentData i h) = h"
  using op f
proof (induction reg this layerData parentData i h rule: applyToParent_loop.induct)
  case (1 reg this layerData parentData i h)
  show ?case
  proof (cases "i < length (h layerData)")
    case False
    then show ?thesis by (simp add: applyToParent_loop.simps [of _ _ _ _ i h])
  next
    case True
    show ?thesis
    proof (cases "applyToParent_body reg this layerData parentData i h")
      case (Inl e)
      with True show ?thesis by (simp add: applyToParent_loop.simps [of _ _ _ _ i h])
    next
      case (Inr h')
      from Inr obtain f pd where f: "reg (blendingMode (options this)) = Some f"
        and pd: "parentData = Some pd"
        and h': "h' = h(pd := compositePixel this f (h layerData) (h pd) i)"
        by (rule applyToParent_body_Inr)
      have "\<forall>L P. numeric L \<and> numeric P \<longrightarrow>
          isNum (r (f L P)) \<and> isNum (g (f L P)) \<and> isNum (b (f L P))"
        using "1.prems"(5) f by blast
      then have "compositePixel this f (h layerData) (h pd) i = h pd"
        using "1.prems" True pd
        by (intro compositePixel_zero_opacity) simp_all
      then have same: "h' = h" by (simp add: h')
      have "snd (applyToParent_loop reg this layerData parentData (i + 4) h') = h'"
        using "1.prems" by (intro "1.IH" [OF True Inr]) (simp_all add: same)
      with True Inr same show ?thesis
        by (simp add: applyToParent_loop.simps [of _ _ _ _ i h])
    qed
  qed
qed

section \<open>The claims\<close>

subsection \<open>C1: the interpolation formula\<close>

text \<open>Claim C1 says that every R, G and B channel of the parent becomes
  \<open>parentChannel - (parentChannel - resultChannel) * w\<close> with
  \<open>w = options.opacity * (result.a / 255)\<close>, \<open>result\<close> being the clamped output of the
  blend function, whose alpha is the layer's only if the blend function produced none.
  The code takes the layer's alpha whenever \<open>!result.a\<close> holds, also for an alpha of 0
  that the blend function did produce. The blend function \<open>transparent\<close> returns alpha 0:
  on parent \<open>(100, 100, 100, 255)\<close> and layer \<open>(200, 50, 0, 255)\<close> at opacity 0.5 the
  formula of the claim has \<open>w = 0.5 * (0 / 255) = 0\<close> and assigns \<open>(100, 100, 100)\<close>, the
  parent as it was, while \<open>applyToParent\<close> works with \<open>w = 0.5 * (255 / 255)\<close> and leaves the
  parent at \<open>(150, 75, 50, 255)\<close>.\<close>

theorem C1_interpolation_failing_input:
  "a (transparent (pixelAt (scenario_store 1) 0) (pixelAt (scenario_store 0) 0)) = Num 0 \<and>
   a (spec_result transparent (pixelAt (scenario_store 1) 0) (pixelAt (scenario_store 0) 0)) =
     Num 0 \<and>
   typed_set
     (typed_set
        (typed_set (scenario_store 0) 0
           (spec_channel transparent_layer transparent r
              (pixelAt (scenario_store 1) 0) (pixelAt (scenario_store 0) 0)))
        1 (spec_channel transparent_layer transparent g
              (pixelAt (scenario_store 1) 0) (pixelAt (scenario_store 0) 0)))
     2 (spec_channel transparent_layer transparent b
              (pixelAt (scenario_store 1) 0) (pixelAt (scenario_store 0) 0)) =
     [100, 100, 100, 255] \<and>
   snd (applyToParent scenario_registry transparent_layer scenario_engine scenario_store) 0 =
     [150, 75, 50, 255]"
  by (simp add: applyToParent_def applyToParent_loop.simps applyToParent_body_def
        Blender_execute_def scenario_registry_def scenario_store_def scenario_engine_def
        transparent_layer_def scenario_layer_def active_layer_def setBlendingMode_def
        opacity_set_def transparent_def typed_get_def typed_set_def Let_def ToUint8Clamp_def
        spec_channel_def spec_result_def pixelAt_def)

subsection \<open>C2: copyParent does not copy the parent\<close>

text \<open>Claim C2 says that after \<open>copyParent\<close> the layer's buffer equals the buffer the
  engine exposes. The code binds \<open>parentData\<close> to \<open>this.pixelData\<close>, not to
  \<open>this.c.pixelData\<close>: for a freshly allocated, zero-filled layer buffer and an exposed
  buffer \<open>(200, 50, 0, 255)\<close>, the layer's buffer is still \<open>(0, 0, 0, 0)\<close> after the call
  and differs from the exposed one.\<close>

theorem C2_copyParent_failing_input:
  "snd (copyParent fresh_layer scenario_engine scenario_store) (layer.pixelData fresh_layer) =
     [0, 0, 0, 0] \<and>
   snd (copyParent fresh_layer scenario_engine scenario_store) (caman.pixelData scenario_engine) =
     [200, 50, 0, 255]"
  by (simp add: copyParent_def copyParent_loop.simps copyParent_body_def fresh_layer_def
        scenario_engine_def scenario_store_def typed_get_def typed_set_def ToUint8Clamp_def
        Let_def)

subsection \<open>C3: where the operands are read\<close>

text \<open>Claim C3. During \<open>applyToParent\<close> the layer sits at the top of the engine's stack
  (the precondition of section 4.3): the buffer the engine exposes as \<open>pixelData\<close> is the
  layer's own \<open>pixelData\<close>. Then, for every pixel index \<open>i\<close> (a multiple of 4 below the
  length of the buffer) and a registered blending mode, the layer-side operand of the
  blend function is the pixel at \<open>i\<close> of the layer's own buffer and the parent-side
  operand is the pixel at \<open>i\<close> of the buffer at index \<open>length - 1\<close> of the engine's
  \<open>pixelStack\<close>, both as they were before the call: the three channels stored into the
  parent are those computed from the blend function's result on these two pixels, and
  the pixel of the parent after the call is the composite of the two.\<close>

theorem C3_operands_read:
  assumes "caman.pixelData c = layer.pixelData this"
    and "reg (blendingMode (options this)) = Some f" and "pixelStack c \<noteq> []"
    and "4 dvd i" and "i < length (h (layer.pixelData this))"
  shows "(let layerRGBA = pixelAt (h (layer.pixelData this)) i;
              parent = h (pixelStack c ! (length (pixelStack c) - 1));
              parentRGBA = pixelAt parent i;
              parent' = snd (applyToParent reg this c h) (pixelStack c ! (length (pixelStack c) - 1))
          in pixelAt parent' i =
               pixelAt (typed_set
                 (typed_set
                    (typed_set parent i (channelValue this f r layerRGBA parentRGBA))
                    (i + 1) (channelValue this f g layerRGBA parentRGBA))
                 (i + 2) (channelValue this f b layerRGBA parentRGBA)) i \<and>
             pixelAt parent' i =
               pixelAt (compositePixel this f (h (layer.pixelData this)) parent i) i)"
proof -
  have "pixelAt (snd (applyToParent reg this c h) (last (pixelStack c))) i =
      pixelAt (compositePixel this f (h (caman.pixelData c)) (h (last (pixelStack c))) i) i"
    using assms
    by (intro applyToParent_pixelAt [where reg = reg and this = this and f = f and c = c
          and i = i and h = h]) simp_all
  then show ?thesis
    using assms(1,3) by (simp add: last_conv_nth compositePixel_def Let_def)
qed

text \<open>The active layer of the one-pixel image, mode \<open>normal\<close> at opacity 1.0: the parent
  \<open>(100, 100, 100, 255)\<close> takes the R, G and B of the layer's own pixel
  \<open>(200, 50, 0, 255)\<close>.\<close>

theorem C3_operands_read_witness:
  "caman.pixelData scenario_engine = layer.pixelData active_layer \<and>
   scenario_registry (blendingMode (options active_layer)) = Some normal \<and>
   pixelStack scenario_engine \<noteq> [] \<and> (4::nat) dvd 0 \<and>
   0 < length (scenario_store (layer.pixelData active_layer)) \<and>
   pixelAt (scenario_store (layer.pixelData active_layer)) 0 =
     \<lparr>r = Num 200, g = Num 50, b = Num 0, a = Num 255\<rparr> \<and>
   pixelAt (scenario_store (pixelStack scenario_engine ! (length (pixelStack scenario_engine) - 1))) 0 =
     \<lparr>r = Num 100, g = Num 100, b = Num 100, a = Num 255\<rparr> \<and>
   pixelAt (snd (applyToParent scenario_registry active_layer scenario_engine scenario_store)
     (pixelStack scenario_engine ! (length (pixelStack scenario_engine) - 1))) 0 =
     \<lparr>r = Num 200, g = Num 50, b = Num 0, a = Num 255\<rparr>"
proof -
  have 1: "caman.pixelData scenario_engine = layer.pixelData active_layer"
    by (simp add: scenario_engine_def active_layer_def)
  have 2: "scenario_registry (blendingMode (options active_layer)) = Some normal"
    by (simp add: scenario_registry_def active_layer_def)
  have 3: "pixelStack scenario_engine \<noteq> []" by (simp add: scenario_engine_def)
  have 4: "(4::nat) dvd 0" by simp
  have 5: "0 < length (scenario_store (layer.pixelData active_layer))"
    by (simp add: scenario_store_def active_layer_def)
  have last: "pixelStack scenario_engine ! (length (pixelStack scenario_engine) - 1) = 0"
    by (simp add: scenario_engine_def)
  have layer: "pixelAt (scenario_store (layer.pixelData active_layer)) 0 =
      \<lparr>r = Num 200, g = Num 50, b = Num 0, a = Num 255\<rparr>"
    by (simp add: pixelAt_def typed_get_def scenario_store_def active_layer_def)
  have parent: "pixelAt (scenario_store 0) 0 =
      \<lparr>r = Num 100, g = Num 100, b = Num 100, a = Num 255\<rparr>"
    by (simp add: pixelAt_def typed_get_def scenario_store_def)
  have comp: "compositePixel active_layer normal (scenario_store (layer.pixelData active_layer))
      (scenario_store 0) 0 = [200, 50, 0, 255]"
    by (simp add: scenario_store_def active_layer_def normal_def typed_get_def typed_set_def
        Let_def ToUint8Clamp_def compositePixel_def channelValue_def blendResult_def weight_def
        interpolate_def pixelAt_def)
  from C3_operands_read [where c = scenario_engine and this = active_layer
      and reg = scenario_registry and f = normal and i = 0 and h = scenario_store,
      OF 1 2 3 4 5]
  have "pixelAt (snd (applyToParent scenario_registry active_layer scenario_engine scenario_store)
      (pixelStack scenario_engine ! (length (pixelStack scenario_engine) - 1))) 0 =
      pixelAt (compositePixel active_layer normal (scenario_store (layer.pixelData active_layer))
        (scenario_store (pixelStack scenario_engine ! (length (pixelStack scenario_engine) - 1)))
        0) 0"
    unfolding Let_def by (rule conjunct2)
  then have result: "pixelAt (snd (applyToParent scenario_registry active_layer scenario_engine
      scenario_store) (pixelStack scenario_engine ! (length (pixelStack scenario_engine) - 1))) 0 =
      \<lparr>r = Num 200, g = Num 50, b = Num 0, a = Num 255\<rparr>"
    unfolding last comp by (simp add: pixelAt_def typed_get_def)
  have parent': "pixelAt (scenario_store
      (pixelStack scenario_engine ! (length (pixelStack scenario_engine) - 1))) 0 =
      \<lparr>r = Num 100, g = Num 100, b = Num 100, a = Num 255\<rparr>"
    unfolding last by (rule parent)
  from 1 2 3 4 5 layer parent' result show ?thesis by (intro conjI)
qed

subsection \<open>C4: an unregistered blending mode\<close>

text \<open>Claim C4 as stated fails on an image without pixels: the blend function is looked
  up inside the loop, the loop body never runs, and \<open>applyToParent\<close> returns normally
  although the mode \<open>glow\<close> is not registered.\<close>

theorem C4_unregistered_empty_counterexample:
  "scenario_registry (blendingMode (options (setBlendingMode ''glow'' active_layer))) = None \<and>
   applyToParent scenario_registry (setBlendingMode ''glow'' active_layer) scenario_engine
     empty_store = (None, empty_store)"
  by (simp add: applyToParent_def applyToParent_loop.simps scenario_registry_def
        setBlendingMode_def active_layer_def scenario_engine_def empty_store_def)

text \<open>Claim C4, amended. If the blending mode is not registered, the stack has a parent
  and the buffer exposed by the engine has at least one byte, then \<open>applyToParent\<close> fails
  with a configuration error and the store is the one before the call: no byte of the
  parent buffer, or of any buffer, is modified. Whenever \<open>applyToParent\<close> fails, with
  whatever error, it leaves the whole store in its state before the call.\<close>

theorem C4_failed_composite_atomic:
  "(reg (blendingMode (options this)) = None \<and> pixelStack c \<noteq> [] \<and>
      h (caman.pixelData c) \<noteq> [] \<longrightarrow>
      applyToParent reg this c h = (Some ConfigurationError, h)) \<and>
   (fst (applyToParent reg this c h) \<noteq> None \<longrightarrow> snd (applyToParent reg this c h) = h)"
proof (intro conjI impI)
  assume "reg (blendingMode (options this)) = None \<and> pixelStack c \<noteq> [] \<and>
      h (caman.pixelData c) \<noteq> []"
  then show "applyToParent reg this c h = (Some ConfigurationError, h)"
    by (simp add: applyToParent_def applyToParent_loop.simps [of _ _ _ _ 0 h]
          applyToParent_body_None)
next
  assume "fst (applyToParent reg this c h) \<noteq> None"
  then obtain e where "fst (applyToParent reg this c h) = Some e" by blast
  then show "snd (applyToParent reg this c h) = h"
    unfolding applyToParent_def Let_def by (rule applyToParent_loop_failed [THEN conjunct1])
qed

text \<open>The scenario with the unregistered mode \<open>glow\<close>: the call fails and the parent is
  still \<open>(100, 100, 100, 255)\<close>.\<close>

theorem C4_failed_composite_atomic_witness:
  "scenario_registry (blendingMode (options (setBlendingMode ''glow'' active_layer))) = None \<and>
   pixelStack scenario_engine \<noteq> [] \<and>
   scenario_store (caman.pixelData scenario_engine) \<noteq> [] \<and>
   fst (applyToParent scenario_registry (setBlendingMode ''glow'' active_layer) scenario_engine
     scenario_store) \<noteq> None \<and>
   applyToParent scenario_registry (setBlendingMode ''glow'' active_layer) scenario_engine
     scenario_store = (Some ConfigurationError, scenario_store) \<and>
   snd (applyToParent scenario_registry (setBlendingMode ''glow'' active_layer) scenario_engine
     scenario_store) 0 = [100, 100, 100, 255]"
proof -
  have hyp: "scenario_registry (blendingMode (options (setBlendingMode ''glow'' active_layer))) = None \<and>
      pixelStack scenario_engine \<noteq> [] \<and> scenario_store (caman.pixelData scenario_engine) \<noteq> []"
    by (simp add: scenario_registry_def setBlendingMode_def active_layer_def scenario_engine_def
          scenario_store_def)
  note inst = C4_failed_composite_atomic [of scenario_registry
      "setBlendingMode ''glow'' active_layer" scenario_engine scenario_store]
  from inst [THEN conjunct1, rule_format, OF hyp]
  have eq: "applyToParent scenario_registry (setBlendingMode ''glow'' active_layer)
      scenario_engine scenario_store = (Some ConfigurationError, scenario_store)" .
  then have failed: "fst (applyToParent scenario_registry (setBlendingMode ''glow'' active_layer)
      scenario_engine scenario_store) \<noteq> None" by simp
  from inst [THEN conjunct2, rule_format, OF failed]
  have "snd (applyToParent scenario_registry (setBlendingMode ''glow'' active_layer)
      scenario_engine scenario_store) 0 = scenario_store 0" by simp
  then show ?thesis using hyp eq failed by (simp add: scenario_store_def)
qed

subsection \<open>C5: the alpha channel of the parent\<close>

text \<open>Claim C5. For every registry, layer (so every blending mode and opacity), engine
  and store, and every pixel index \<open>i\<close> (a multiple of 4), the alpha element \<open>i + 3\<close> of
  the parent buffer, and of every other buffer \<open>x\<close>, reads after \<open>applyToParent\<close> as it
  did before, whether the call fails or not.\<close>

theorem C5_alpha_untouched:
  "4 dvd i \<Longrightarrow>
   typed_get (snd (applyToParent reg this c h) x) (i + 3) = typed_get (h x) (i + 3)"
proof (rule typed_get_cong)
  assume "4 dvd i"
  then have "(i + 3) mod 4 = 3" by presburger
  then show "snd (applyToParent reg this c h) x ! (i + 3) = h x ! (i + 3)"
    by (simp only: applyToParent_def Let_def applyToParent_loop_alpha [OF dvd_0_right])
qed (simp add: applyToParent_length)

text \<open>In the scenario the alpha of the parent stays 255.\<close>

theorem C5_alpha_untouched_witness:
  "(4::nat) dvd 0 \<and>
   typed_get (snd (applyToParent scenario_registry scenario_layer scenario_engine scenario_store)
     (last (pixelStack scenario_engine))) (0 + 3) = Num 255"
  using C5_alpha_untouched [of 0 scenario_registry scenario_layer scenario_engine scenario_store
      "last (pixelStack scenario_engine)"]
  by (simp add: scenario_engine_def scenario_store_def typed_get_def)

subsection \<open>C6: opacity zero\<close>



subsection \<open>C7: the alpha of the blend result\<close>

text \<open>Claim C7 says that the alpha of the blend result is replaced by the layer's alpha
  exactly when the blend function did not produce one. The guard of the code is
  \<open>!result.a\<close>, which also holds for an alpha of 0 that the blend function did produce.
  The blend function \<open>transparent\<close> returns alpha 0; on parent \<open>(100, 100, 100, 255)\<close> and
  layer \<open>(200, 50, 0, 255)\<close> at opacity 1.0 the alpha used is the layer's 255, the weight
  is 1 and the parent becomes \<open>(200, 50, 0, 255)\<close>, where the weight
  \<open>1.0 * (0 / 255) = 0\<close> of the claim leaves it \<open>(100, 100, 100, 255)\<close>.\<close>

theorem C7_zero_alpha_failing_input:
  "a (transparent (pixelAt (scenario_store 1) 0) (pixelAt (scenario_store 0) 0)) = Num 0 \<and>
   a (blendResult transparent (pixelAt (scenario_store 1) 0) (pixelAt (scenario_store 0) 0)) =
     Num 255 \<and>
   snd (applyToParent scenario_registry (setBlendingMode ''transparent'' active_layer)
     scenario_engine scenario_store) 0 = [200, 50, 0, 255]"
  by (simp add: applyToParent_def applyToParent_loop.simps applyToParent_body_def
        Blender_execute_def scenario_registry_def scenario_store_def scenario_engine_def
        active_layer_def setBlendingMode_def transparent_def typed_get_def typed_set_def Let_def
        ToUint8Clamp_def blendResult_def pixelAt_def)

subsection \<open>C8: stored channels stay within a byte\<close>

text \<open>Claim C8. For every registered blend function, whatever channel values it returns,
  and every opacity, each R, G and B element of the parent buffer that \<open>applyToParent\<close>
  stores holds the unsigned integer \<open>ToUint8Clamp\<close> of the interpolated value, without
  wrap-around, and this integer lies within [0, 255].\<close>

theorem C8_stored_channels_in_range:
  assumes "reg (blendingMode (options this)) = Some f" and "pixelStack c \<noteq> []"
    and "4 dvd i" and "i < length (h (caman.pixelData c))"
    and "i + 2 < length (h (last (pixelStack c)))"
  shows "(let layerRGBA = pixelAt (h (caman.pixelData c)) i;
              parentRGBA = pixelAt (h (last (pixelStack c))) i;
              parent' = snd (applyToParent reg this c h) (last (pixelStack c))
          in uint (parent' ! i) = ToUint8Clamp (channelValue this f r layerRGBA parentRGBA) \<and>
             uint (parent' ! (i + 1)) = ToUint8Clamp (channelValue this f g layerRGBA parentRGBA) \<and>
             uint (parent' ! (i + 2)) = ToUint8Clamp (channelValue this f b layerRGBA parentRGBA) \<and>
             0 \<le> uint (parent' ! i) \<and> uint (parent' ! i) \<le> 255 \<and>
             0 \<le> uint (parent' ! (i + 1)) \<and> uint (parent' ! (i + 1)) \<le> 255 \<and>
             0 \<le> uint (parent' ! (i + 2)) \<and> uint (parent' ! (i + 2)) \<le> 255)"
proof -
  let ?L = "pixelAt (h (caman.pixelData c)) i"
  let ?P = "pixelAt (h (last (pixelStack c))) i"
  let ?parent' = "snd (applyToParent reg this c h) (last (pixelStack c))"
  note nth = applyToParent_nth [where reg = reg and this = this and f = f and c = c
      and h = h and i = i, OF assms(1-4)]
  have "?parent' ! i =
      compositePixel this f (h (caman.pixelData c)) (h (last (pixelStack c))) i ! i"
    by (rule nth) simp_all
  then have r: "uint (?parent' ! i) = ToUint8Clamp (channelValue this f r ?L ?P)"
    using assms(5) by (simp add: nth_compositePixel_r)
  have "?parent' ! (i + 1) =
      compositePixel this f (h (caman.pixelData c)) (h (last (pixelStack c))) i ! (i + 1)"
    by (rule nth) simp_all
  then have g: "uint (?parent' ! (i + 1)) = ToUint8Clamp (channelValue this f g ?L ?P)"
    using assms(5) by (simp only: nth_compositePixel_g uint_stored)
  have "?parent' ! (i + 2) =
      compositePixel this f (h (caman.pixelData c)) (h (last (pixelStack c))) i ! (i + 2)"
    by (rule nth) simp_all
  then have b: "uint (?parent' ! (i + 2)) = ToUint8Clamp (channelValue this f b ?L ?P)"
    using assms(5) by (simp only: nth_compositePixel_b uint_stored)
  show ?thesis
    unfolding Let_def r g b
    using ToUint8Clamp_range [of "channelValue this f r ?L ?P"]
      ToUint8Clamp_range [of "channelValue this f g ?L ?P"]
      ToUint8Clamp_range [of "channelValue this f b ?L ?P"]
    by simp
qed

text \<open>The blend function \<open>overflow\<close> returns \<open>(300, -20, 1000)\<close>; at an opacity of 200
  percent the interpolated red and green are 410 and -100, and the parent stores 255, 0
  and 255.\<close>

theorem C8_stored_channels_in_range_witness:
  "scenario_registry (blendingMode (options overflow_layer)) = Some overflow \<and>
   pixelStack scenario_engine \<noteq> [] \<and> (4::nat) dvd 0 \<and>
   0 < length (scenario_store (caman.pixelData scenario_engine)) \<and>
   0 + 2 < length (scenario_store (last (pixelStack scenario_engine))) \<and>
   r (overflow (pixelAt (scenario_store 1) 0) (pixelAt (scenario_store 0) 0)) = Num 300 \<and>
   channelValue overflow_layer overflow r
     (pixelAt (scenario_store 1) 0) (pixelAt (scenario_store 0) 0) = Num 410 \<and>
   channelValue overflow_layer overflow g
     (pixelAt (scenario_store 1) 0) (pixelAt (scenario_store 0) 0) = Num (- 100) \<and>
   uint (snd (applyToParent scenario_registry
      overflow_layer scenario_engine
      scenario_store) 0 ! 0) = 255 \<and>
   uint (snd (applyToParent scenario_registry
      overflow_layer scenario_engine
      scenario_store) 0 ! 1) = 0 \<and>
   uint (snd (applyToParent scenario_registry
      overflow_layer scenario_engine
      scenario_store) 0 ! 2) = 255"
proof -
  have 1: "scenario_registry (blendingMode (options overflow_layer)) = Some overflow"
    by (simp add: scenario_registry_def overflow_layer_def opacity_set_def setBlendingMode_def
          active_layer_def)
  have 2: "pixelStack scenario_engine \<noteq> []" by (simp add: scenario_engine_def)
  have 3: "(4::nat) dvd 0" by simp
  have 4: "0 < length (scenario_store (caman.pixelData scenario_engine))"
    by (simp add: scenario_engine_def scenario_store_def)
  have 5: "0 + 2 < length (scenario_store (last (pixelStack scenario_engine)))"
    by (simp add: scenario_engine_def scenario_store_def)
  have last: "last (pixelStack scenario_engine) = 0" "caman.pixelData scenario_engine = 1"
    by (simp_all add: scenario_engine_def)
  have vals: "r (overflow (pixelAt (scenario_store 1) 0) (pixelAt (scenario_store 0) 0)) = Num 300"
    "channelValue overflow_layer overflow r (pixelAt (scenario_store 1) 0) (pixelAt (scenario_store 0) 0)
       = Num 410"
    "channelValue overflow_layer overflow g (pixelAt (scenario_store 1) 0) (pixelAt (scenario_store 0) 0)
       = Num (- 100)"
    "channelValue overflow_layer overflow b (pixelAt (scenario_store 1) 0) (pixelAt (scenario_store 0) 0)
       = Num 410"
    by (simp_all add: overflow_def channelValue_def blendResult_def weight_def interpolate_def
          pixelAt_def typed_get_def scenario_store_def overflow_layer_def opacity_set_def
          setBlendingMode_def active_layer_def Let_def)
  have clamp: "ToUint8Clamp (Num 410) = 255" "ToUint8Clamp (Num (- 100)) = 0"
    by (simp_all add: ToUint8Clamp_def Let_def)
  from C8_stored_channels_in_range [where reg = scenario_registry and this = overflow_layer
      and f = overflow and c = scenario_engine and h = scenario_store and i = 0, OF 1 2 3 4 5]
  have "uint (snd (applyToParent scenario_registry overflow_layer scenario_engine scenario_store) 0 ! 0) = 255 \<and>
    uint (snd (applyToParent scenario_registry overflow_layer scenario_engine scenario_store) 0 ! 1) = 0 \<and>
    uint (snd (applyToParent scenario_registry overflow_layer scenario_engine scenario_store) 0 ! 2) = 255"
    unfolding Let_def last vals clamp by (simp add: numeral_2_eq_2)
  with 1 2 3 4 5 vals show ?thesis by simp
qed

subsection \<open>C9: the setters\<close>

text \<open>Claim C9. For every number \<open>percent\<close>, inside [0, 100] or not, \<open>opacity\<close> stores
  \<open>percent / 100\<close> in \<open>options.opacity\<close>, unclamped, and returns the layer, which is
  otherwise as before; \<open>setBlendingMode name\<close> stores \<open>name\<close> as it is in
  \<open>options.blendingMode\<close>, for every string and without looking at any registry, and
  returns the layer, which is otherwise as before.\<close>

theorem C9_setters:
  "opacity (options (opacity_set percent this)) = percent / 100 \<and>
   blendingMode (options (opacity_set percent this)) = blendingMode (options this) \<and>
   layer.more (opacity_set percent this) = layer.more this \<and>
   layerID (opacity_set percent this) = layerID this \<and>
   width (opacity_set percent this) = width this \<and>
   height (opacity_set percent this) = height this \<and>
   layer.pixelData (opacity_set percent this) = layer.pixelData this \<and>
   blendingMode (options (setBlendingMode name this)) = name \<and>
   opacity (options (setBlendingMode name this)) = opacity (options this) \<and>
   layerID (setBlendingMode name this) = layerID this \<and>
   width (setBlendingMode name this) = width this \<and>
   height (setBlendingMode name this) = height this \<and>
   layer.pixelData (setBlendingMode name this) = layer.pixelData this"
  by (simp add: opacity_set_def setBlendingMode_def)

subsection \<open>C10: copyParent copies the layer onto itself\<close>

text \<open>Claim C10. For every layer, engine and store, \<open>copyParent\<close> returns the layer and
  leaves the store as it was: the source of the copy is the layer's own buffer, so every
  element is written onto itself (and a write beyond the end of the buffer is ignored).\<close>

theorem C10_copyParent_self_copy: "copyParent this c h = (this, h)"
  by (simp add: copyParent_def Let_def copyParent_loop_self)

end
